theory Spec2Isabelle
  imports Main
begin

section \<open>Data model of \<^verbatim>\<open>_vsa_validator.py\<close>\<close>

text \<open>
  Exceptions are values. \<open>ValueError\<close> and \<open>KeyError\<close> are the two the module's own
  statements raise (the unsupported-source check of \<^verbatim>\<open>load_documents\<close>, a subscript
  of a dict); \<open>ServiceError\<close> stands for any exception raised inside a third-party call
  (loader, vector store, embedding, language model, search tool, file system);
  \<open>GraphRecursionError\<close> is what the graph executor raises when a run exceeds its step
  limit.
\<close>

datatype error =
    ValueError string
  | KeyError string
  | ServiceError string
  | GraphRecursionError

fun str_of_error :: "error \<Rightarrow> string" where
  "str_of_error (ValueError m) = m"
| "str_of_error (KeyError k) = k"
| "str_of_error (ServiceError m) = m"
| "str_of_error GraphRecursionError = ''Recursion limit reached''"

text \<open>\<^verbatim>\<open>Document(page_content=..., metadata={...})\<close>: a text and a dict of tags.\<close>

record Document =
  page_content :: string
  metadata :: "string \<rightharpoonup> string"

text \<open>\<^verbatim>\<open>class GradeDocuments(BaseModel)\<close>: the grader's structured output.\<close>

record GradeDocuments =
  binary_score :: string

text \<open>
  \<^verbatim>\<open>class GraphState(TypedDict)\<close>. The declared key \<^verbatim>\<open>answer\<close> is never read or
  written by any node and is absent from the initial state, so it has no field here.
\<close>

record GraphState =
  question :: string
  generation :: string
  search :: string
  documents :: "Document list"
  steps :: "string list"

text \<open>
  The module-level singletons that call out of the process. Each call either raises or
  returns; a call is a function of its arguments. A grader call that yields no structured
  object makes \<^verbatim>\<open>score.binary_score\<close> raise; that too is an \<open>Inl\<close> of the call.
  \<^item> \<open>retriever_invoke q\<close> is \<^verbatim>\<open>retriever.invoke(question)\<close>;
  \<^item> \<open>retrieval_grader_invoke q text\<close> is
    \<^verbatim>\<open>retrieval_grader.invoke({"question": q, "documents": text})\<close>;
  \<^item> \<open>web_search_tool_invoke q\<close> is \<^verbatim>\<open>web_search_tool.invoke({"query": q})\<close>,
    a list of dicts;
  \<^item> \<open>rag_chain_invoke docs q\<close> is
    \<^verbatim>\<open>rag_chain.invoke({"documents": docs, "question": q})\<close>.
\<close>

record services =
  retriever_invoke :: "string \<Rightarrow> error + Document list"
  retrieval_grader_invoke :: "string \<Rightarrow> string \<Rightarrow> error + GradeDocuments"
  web_search_tool_invoke :: "string \<Rightarrow> error + (string \<rightharpoonup> string) list"
  rag_chain_invoke :: "Document list \<Rightarrow> string \<Rightarrow> error + string"

section \<open>Strings and paths\<close>

definition startswith :: "string \<Rightarrow> string \<Rightarrow> bool" where
  "startswith s p = (take (length p) s = p)"

definition endswith :: "string \<Rightarrow> string \<Rightarrow> bool" where
  "endswith s p = (length p \<le> length s \<and> drop (length s - length p) s = p)"

text \<open>\<^verbatim>\<open>os.path.join(a, b)\<close> on a POSIX system.\<close>

definition path_join :: "string \<Rightarrow> string \<Rightarrow> string" where
  "path_join a b =
     (if startswith b ''/'' then b
      else if a = [] \<or> endswith a ''/'' then a @ b
      else a @ ''/'' @ b)"

section \<open>Loading documents and the vector store\<close>

text \<open>
  The file system is a value of type \<open>'fs\<close> and a vector store one of type \<open>'ix\<close>;
  the library calls of \<^verbatim>\<open>create_or_load_vectorstore\<close> and \<^verbatim>\<open>load_documents\<close>
  are the fields of a record. Constructing a loader and calling its \<^verbatim>\<open>load()\<close> is one
  fallible call per loader class; \<^verbatim>\<open>OpenAIEmbeddings()\<close> is part of the call it is an
  argument of.
\<close>

record ('fs, 'ix) platform =
  os_getcwd :: "'fs \<Rightarrow> string"
  os_path_exists :: "'fs \<Rightarrow> string \<Rightarrow> bool"
  os_makedirs :: "'fs \<Rightarrow> string \<Rightarrow> error + 'fs"
  FAISS_load_local :: "'fs \<Rightarrow> string \<Rightarrow> error + 'ix"
  FAISS_from_documents :: "Document list \<Rightarrow> error + 'ix"
  FAISS_save_local :: "'fs \<Rightarrow> 'ix \<Rightarrow> string \<Rightarrow> error + 'fs"
  split_documents :: "Document list \<Rightarrow> error + Document list"
  WebBaseLoader_load :: "string \<Rightarrow> error + Document list"
  PyPDFLoader_load :: "string \<Rightarrow> error + Document list"

datatype loader = WebBaseLoader string | PyPDFLoader string

text \<open>The \<^verbatim>\<open>if / elif / else\<close> of the loop body of \<^verbatim>\<open>load_documents\<close>.\<close>

definition select_loader :: "string \<Rightarrow> error + loader" where
  "select_loader source =
     (if startswith source ''http'' then Inr (WebBaseLoader source)
      else if endswith source ''.pdf'' then Inr (PyPDFLoader source)
      else Inl (ValueError (''Unsupported source type: '' @ source)))"

fun loader_load :: "('fs, 'ix) platform \<Rightarrow> loader \<Rightarrow> error + Document list" where
  "loader_load P (WebBaseLoader source) = WebBaseLoader_load P source"
| "loader_load P (PyPDFLoader source) = PyPDFLoader_load P source"

text \<open>The \<^verbatim>\<open>for source in sources\<close> loop, \<open>docs\<close> being the list built so far.\<close>

fun load_documents_loop ::
  "('fs, 'ix) platform \<Rightarrow> string list \<Rightarrow> Document list \<Rightarrow> error + Document list" where
  "load_documents_loop P [] docs = Inr docs"
| "load_documents_loop P (source # rest) docs =
     (case select_loader source of
        Inl e \<Rightarrow> Inl e
      | Inr ld \<Rightarrow>
          (case loader_load P ld of
             Inl e \<Rightarrow> Inl e
           | Inr loaded \<Rightarrow> load_documents_loop P rest (docs @ loaded)))"

definition load_documents :: "('fs, 'ix) platform \<Rightarrow> string list \<Rightarrow> error + Document list" where
  "load_documents P sources = load_documents_loop P sources []"

text \<open>
  The result of \<^verbatim>\<open>create_or_load_vectorstore\<close> is the returned store or the exception
  that left the function, the file system afterwards, and the lines printed.

  \<open>save_vectorstore\<close> is the \<^verbatim>\<open>try: os.makedirs(...); vectorstore.save_local(...)\<close>
  block with its \<^verbatim>\<open>except Exception\<close>.
\<close>

definition save_vectorstore ::
  "('fs, 'ix) platform \<Rightarrow> 'fs \<Rightarrow> 'ix \<Rightarrow> string \<Rightarrow> string \<Rightarrow> 'fs \<times> string list" where
  "save_vectorstore P fs vectorstore index_dir index_path =
     (case os_makedirs P fs index_dir of
        Inl e \<Rightarrow> (fs, [''Error saving vector store: '' @ str_of_error e])
      | Inr fs1 \<Rightarrow>
          (case FAISS_save_local P fs1 vectorstore index_path of
             Inl e \<Rightarrow> (fs1, [''Error saving vector store: '' @ str_of_error e])
           | Inr fs2 \<Rightarrow> (fs2, [''Vector store saved successfully.''])))"

text \<open>Lines 61 to 77: everything after the \<^verbatim>\<open>if os.path.exists\<close> statement.\<close>

definition create_new_vectorstore ::
  "('fs, 'ix) platform \<Rightarrow> 'fs \<Rightarrow> string list \<Rightarrow> string \<Rightarrow> string \<Rightarrow> string list
     \<Rightarrow> (error + 'ix) \<times> 'fs \<times> string list" where
  "create_new_vectorstore P fs sources index_dir index_path out =
     (let out1 = out @ [''Creating new vector store...''] in
      case load_documents P sources of
        Inl e \<Rightarrow> (Inl e, fs, out1)
      | Inr docs \<Rightarrow>
          (case split_documents P docs of
             Inl e \<Rightarrow> (Inl e, fs, out1)
           | Inr doc_splits \<Rightarrow>
               (case FAISS_from_documents P doc_splits of
                  Inl e \<Rightarrow> (Inl e, fs, out1)
                | Inr vectorstore \<Rightarrow>
                    (let out2 = out1 @ [''Saving vector store to '' @ index_path @ ''...''];
                         (fs', out3) = save_vectorstore P fs vectorstore index_dir index_path
                     in (Inr vectorstore, fs', out2 @ out3)))))"

definition create_or_load_vectorstore ::
  "('fs, 'ix) platform \<Rightarrow> 'fs \<Rightarrow> string list \<Rightarrow> string \<Rightarrow> (error + 'ix) \<times> 'fs \<times> string list" where
  "create_or_load_vectorstore P fs sources index_name =
     (let current_dir = os_getcwd P fs;
          index_dir = path_join current_dir index_name;
          index_path = path_join index_dir ''index'';
          index_file = index_path @ ''/index.faiss'';
          out = [''Checking for index at: '' @ index_file]
      in if os_path_exists P fs index_file then
           (let out1 = out @ [''Loading existing vector store from '' @ index_file] in
            case FAISS_load_local P fs index_path of
              Inr vectorstore \<Rightarrow> (Inr vectorstore, fs, out1 @ [''Vector store loaded successfully.''])
            | Inl e \<Rightarrow>
                create_new_vectorstore P fs sources index_dir index_path
                  (out1 @ [''Error loading vector store: '' @ str_of_error e,
                           ''Will create a new vector store.'']))
         else
           create_new_vectorstore P fs sources index_dir index_path
             (out @ [''Vector store not found at '' @ index_file]))"

section \<open>The nodes of the graph\<close>

text \<open>
  A node reads the state, calls out, and returns a dict of updated keys that the executor
  merges into the state; here a node returns the merged state. \<^verbatim>\<open>steps.append(x)\<close>
  on the list held by the state is \<open>steps s @ [x]\<close>.
\<close>

definition retrieve :: "services \<Rightarrow> GraphState \<Rightarrow> error + GraphState" where
  "retrieve E state =
     (let q = question state in
      case retriever_invoke E q of
        Inl e \<Rightarrow> Inl e
      | Inr docs \<Rightarrow>
          (let stps = (if steps state \<noteq> [] then steps state else []) @ [''retrieve_documents'']
           in Inr (state\<lparr>documents := docs, question := q, steps := stps\<rparr>)))"

definition generate :: "services \<Rightarrow> GraphState \<Rightarrow> error + GraphState" where
  "generate E state =
     (let q = question state; docs = documents state in
      case rag_chain_invoke E docs q of
        Inl e \<Rightarrow> Inl e
      | Inr gen \<Rightarrow>
          (let stps = steps state @ [''generate_answer'']
           in Inr (state\<lparr>documents := docs, question := q, generation := gen, steps := stps\<rparr>)))"

text \<open>
  The \<^verbatim>\<open>for d in documents\<close> loop of \<^verbatim>\<open>grade_documents\<close>, with the two variables
  it updates: \<open>filtered_docs\<close> and the flag.
\<close>

fun grade_loop ::
  "services \<Rightarrow> string \<Rightarrow> Document list \<Rightarrow> Document list \<Rightarrow> string
     \<Rightarrow> error + Document list \<times> string" where
  "grade_loop E q [] filtered_docs flag = Inr (filtered_docs, flag)"
| "grade_loop E q (d # ds) filtered_docs flag =
     (case retrieval_grader_invoke E q (page_content d) of
        Inl e \<Rightarrow> Inl e
      | Inr score \<Rightarrow>
          (let grade = binary_score score in
           if grade = ''yes'' then grade_loop E q ds (filtered_docs @ [d]) flag
           else grade_loop E q ds filtered_docs ''Yes''))"

definition grade_documents :: "services \<Rightarrow> GraphState \<Rightarrow> error + GraphState" where
  "grade_documents E state =
     (let q = question state;
          docs = documents state;
          stps = steps state @ [''grade_document_retrieval'']
      in case grade_loop E q docs [] ''No'' of
           Inl e \<Rightarrow> Inl e
         | Inr (filtered_docs, flag) \<Rightarrow>
             Inr (state\<lparr>documents := filtered_docs, question := q, search := flag, steps := stps\<rparr>))"

text \<open>
  \<^verbatim>\<open>Document(page_content=d["content"], metadata={"url": d["url"]})\<close>: a missing key
  raises \<open>KeyError\<close>, \<^verbatim>\<open>"content"\<close> being read first.
\<close>

definition wrap_result :: "(string \<rightharpoonup> string) \<Rightarrow> error + Document" where
  "wrap_result d =
     (case d ''content'' of
        None \<Rightarrow> Inl (KeyError ''content'')
      | Some c \<Rightarrow>
          (case d ''url'' of
             None \<Rightarrow> Inl (KeyError ''url'')
           | Some u \<Rightarrow> Inr \<lparr>page_content = c, metadata = [''url'' \<mapsto> u]\<rparr>))"

text \<open>The list comprehension over \<^verbatim>\<open>web_results\<close>.\<close>

fun wrap_results :: "(string \<rightharpoonup> string) list \<Rightarrow> error + Document list" where
  "wrap_results [] = Inr []"
| "wrap_results (d # ds) =
     (case wrap_result d of
        Inl e \<Rightarrow> Inl e
      | Inr w \<Rightarrow> (case wrap_results ds of Inl e \<Rightarrow> Inl e | Inr ws \<Rightarrow> Inr (w # ws)))"

definition web_search :: "services \<Rightarrow> GraphState \<Rightarrow> error + GraphState" where
  "web_search E state =
     (let q = question state;
          docs = documents state;
          stps = steps state @ [''web_search'']
      in case web_search_tool_invoke E q of
           Inl e \<Rightarrow> Inl e
         | Inr web_results \<Rightarrow>
             (case wrap_results web_results of
                Inl e \<Rightarrow> Inl e
              | Inr new_docs \<Rightarrow>
                  Inr (state\<lparr>documents := docs @ new_docs, question := q, steps := stps\<rparr>)))"

definition decide_to_generate :: "GraphState \<Rightarrow> string" where
  "decide_to_generate state =
     (if search state = ''Yes'' then ''search'' else ''generate'')"

section \<open>The graph and its executor\<close>

text \<open>
  \<^verbatim>\<open>workflow = StateGraph(GraphState)\<close> is built by \<^verbatim>\<open>add_node\<close>,
  \<^verbatim>\<open>set_entry_point\<close>, \<^verbatim>\<open>add_edge\<close> and \<^verbatim>\<open>add_conditional_edges\<close>; the record
  holds what those calls store. \<open>END\<close> is the library's name of the terminal state.
\<close>

definition END :: string where
  "END = ''__end__''"

record StateGraph =
  nodes :: "(string \<times> (services \<Rightarrow> GraphState \<Rightarrow> error + GraphState)) list"
  entry_point :: string
  edges :: "(string \<times> string) list"
  conditional_edges :: "(string \<times> (GraphState \<Rightarrow> string) \<times> (string \<times> string) list) list"

definition workflow :: StateGraph where
  "workflow =
     \<lparr>nodes = [(''retrieve'', retrieve),
               (''grade_documents'', grade_documents),
               (''generate'', generate),
               (''web_search'', web_search)],
      entry_point = ''retrieve'',
      edges = [(''retrieve'', ''grade_documents''),
               (''web_search'', ''generate''),
               (''generate'', END)],
      conditional_edges =
              [(''grade_documents'', decide_to_generate,
                [(''search'', ''web_search''), (''generate'', ''generate'')])]\<rparr>"

text \<open>
  The node that follows \<open>n\<close>, decided on the state \<open>n\<close> has just produced: the branch
  function of a conditional edge is called on the merged state and its key looked up in
  the edge's table; otherwise the plain edge is followed. No node of \<open>workflow\<close> has both.
\<close>

definition next_node :: "StateGraph \<Rightarrow> string \<Rightarrow> GraphState \<Rightarrow> string option" where
  "next_node g n state =
     (case map_of (conditional_edges g) n of
        Some (path, path_map) \<Rightarrow> map_of path_map (path state)
      | None \<Rightarrow> map_of (edges g) n)"

text \<open>
  The executor runs one node per step, from the entry point until \<open>END\<close>; an exception of
  a node leaves the run. It gives up after \<open>recursion_limit\<close> steps (the library's
  default, 25).
\<close>

definition recursion_limit :: nat where
  "recursion_limit = 25"

fun run_graph :: "nat \<Rightarrow> StateGraph \<Rightarrow> services \<Rightarrow> string \<Rightarrow> GraphState \<Rightarrow> error + GraphState" where
  "run_graph 0 g E n state = (if n = END then Inr state else Inl GraphRecursionError)"
| "run_graph (Suc k) g E n state =
     (if n = END then Inr state
      else case map_of (nodes g) n of
             None \<Rightarrow> Inl (ValueError (''Unknown node: '' @ n))
           | Some f \<Rightarrow>
               (case f E state of
                  Inl e \<Rightarrow> Inl e
                | Inr state' \<Rightarrow>
                    (case next_node g n state' of
                       None \<Rightarrow> Inl (ValueError (''Dead end: '' @ n))
                     | Some n' \<Rightarrow> run_graph k g E n' state')))"

text \<open>\<^verbatim>\<open>app = workflow.compile()\<close> and \<^verbatim>\<open>app.invoke(state, config)\<close>.\<close>

definition app_invoke :: "services \<Rightarrow> GraphState \<Rightarrow> error + GraphState" where
  "app_invoke E state = run_graph recursion_limit workflow E (entry_point workflow) state"

text \<open>The state \<^verbatim>\<open>run_streamlit\<close> starts every request with.\<close>

definition initial_state :: "string \<Rightarrow> GraphState" where
  "initial_state prompt =
     \<lparr>question = prompt, generation = '''', search = '''', documents = [], steps = []\<rparr>"

section \<open>Vocabulary of the properties\<close>

text \<open>
  A chunk is graded relevant when the grader returns the score \<^verbatim>\<open>"yes"\<close> for its
  text, and graded irrelevant when the grader returns any other score.
\<close>

definition graded_relevant :: "services \<Rightarrow> string \<Rightarrow> Document \<Rightarrow> bool" where
  "graded_relevant E q d =
     (case retrieval_grader_invoke E q (page_content d) of
        Inl e \<Rightarrow> False
      | Inr score \<Rightarrow> binary_score score = ''yes'')"

definition graded_irrelevant :: "services \<Rightarrow> string \<Rightarrow> Document \<Rightarrow> bool" where
  "graded_irrelevant E q d =
     (case retrieval_grader_invoke E q (page_content d) of
        Inl e \<Rightarrow> False
      | Inr score \<Rightarrow> binary_score score \<noteq> ''yes'')"

definition supported_source :: "string \<Rightarrow> bool" where
  "supported_source source = (startswith source ''http'' \<or> endswith source ''.pdf'')"

text \<open>
  \<open>url_only_chunk r w\<close>: the chunk \<open>w\<close> is the search result \<open>r\<close> wrapped, its text the
  result's content and its metadata the single tag \<^verbatim>\<open>url\<close>.
\<close>

definition url_only_chunk :: "(string \<rightharpoonup> string) \<Rightarrow> Document \<Rightarrow> bool" where
  "url_only_chunk r w =
     (case r ''content'' of
        None \<Rightarrow> False
      | Some c \<Rightarrow>
          (case r ''url'' of
             None \<Rightarrow> False
           | Some u \<Rightarrow> w = \<lparr>page_content = c, metadata = [''url'' \<mapsto> u]\<rparr>))"

definition score_as_enum :: "GradeDocuments \<Rightarrow> GradeDocuments" where
  "score_as_enum score =
     (if binary_score score = ''yes'' then score else score\<lparr>binary_score := ''no''\<rparr>)"

text \<open>The same services, every score of the grader other than \<^verbatim>\<open>"yes"\<close> replaced by \<^verbatim>\<open>"no"\<close>.\<close>

definition with_enum_scores :: "services \<Rightarrow> services" where
  "with_enum_scores E =
     E\<lparr>retrieval_grader_invoke :=
         (\<lambda>q text. case retrieval_grader_invoke E q text of
                      Inl e \<Rightarrow> Inl e
                    | Inr score \<Rightarrow> Inr (score_as_enum score))\<rparr>"

section \<open>Sample services and a sample platform\<close>

text \<open>
  Concrete services on which the properties below are evaluated: a retriever that returns
  two chunks, a grader that accepts the first only, a search tool with one result.
\<close>

definition clause_doc :: Document where
  "clause_doc =
     \<lparr>page_content = ''Clause 7: slot allocation'',
      metadata = [''source'' \<mapsto> ''./index_vsa/vsa.pdf'']\<rparr>"

definition weather_doc :: Document where
  "weather_doc =
     \<lparr>page_content = ''Weather report'',
      metadata = [''source'' \<mapsto> ''./index_vsa/vsa.pdf'']\<rparr>"

definition web_doc :: Document where
  "web_doc =
     \<lparr>page_content = ''Web result'', metadata = [''url'' \<mapsto> ''https://example.org/vsa'']\<rparr>"

definition sample_grader :: "string \<Rightarrow> string \<Rightarrow> error + GradeDocuments" where
  "sample_grader q text =
     Inr \<lparr>binary_score = (if text = ''Clause 7: slot allocation'' then ''yes'' else ''Yes'')\<rparr>"

definition sample_services :: services where
  "sample_services =
     \<lparr>retriever_invoke = (\<lambda>q. Inr [clause_doc, weather_doc]),
      retrieval_grader_invoke = sample_grader,
      web_search_tool_invoke =
        (\<lambda>q. Inr [[''url'' \<mapsto> ''https://example.org/vsa'', ''content'' \<mapsto> ''Web result'']]),
      rag_chain_invoke = (\<lambda>docs q. Inr ''SOURCE[1]'')\<rparr>"

text \<open>The same with a retriever that finds the relevant chunk only, or nothing at all.\<close>

definition relevant_only_services :: services where
  "relevant_only_services = sample_services\<lparr>retriever_invoke := (\<lambda>q. Inr [clause_doc])\<rparr>"

definition no_chunk_services :: services where
  "no_chunk_services = sample_services\<lparr>retriever_invoke := (\<lambda>q. Inr [])\<rparr>"

text \<open>The same with a search tool that finds nothing.\<close>

definition no_hit_services :: services where
  "no_hit_services = sample_services\<lparr>web_search_tool_invoke := (\<lambda>q. Inr [])\<rparr>"

text \<open>
  A platform whose file system is the list of the paths that exist and whose vector store
  is the list of the chunks indexed. Its \<^verbatim>\<open>load_local\<close> fails.
\<close>

definition sample_platform :: "(string list, Document list) platform" where
  "sample_platform =
     \<lparr>os_getcwd = (\<lambda>fs. ''/app''),
      os_path_exists = (\<lambda>fs p. p \<in> set fs),
      os_makedirs = (\<lambda>fs p. Inr (List.insert p fs)),
      FAISS_load_local = (\<lambda>fs p. Inl (ServiceError ''corrupt index'')),
      FAISS_from_documents = (\<lambda>docs. Inr docs),
      FAISS_save_local = (\<lambda>fs ix p. Inr (List.insert (p @ ''/index.faiss'') fs)),
      split_documents = (\<lambda>docs. Inr docs),
      WebBaseLoader_load = (\<lambda>source. Inr [web_doc]),
      PyPDFLoader_load = (\<lambda>source. Inr [clause_doc, weather_doc])\<rparr>"

text \<open>The same with a \<^verbatim>\<open>load_local\<close> that succeeds, or a \<^verbatim>\<open>save_local\<close> that fails.\<close>

definition loading_platform :: "(string list, Document list) platform" where
  "loading_platform = sample_platform\<lparr>FAISS_load_local := (\<lambda>fs p. Inr [clause_doc])\<rparr>"

definition full_disk_platform :: "(string list, Document list) platform" where
  "full_disk_platform =
     sample_platform\<lparr>FAISS_save_local := (\<lambda>fs ix p. Inl (ServiceError ''No space left on device''))\<rparr>"

text \<open>The same with a \<^verbatim>\<open>from_documents\<close> that fails (the embedding service is down).\<close>

definition no_embedding_platform :: "(string list, Document list) platform" where
  "no_embedding_platform =
     sample_platform\<lparr>FAISS_from_documents := (\<lambda>docs. Inl (ServiceError ''Connection error.''))\<rparr>"

section \<open>The grading loop and the executor, in closed form\<close>

text \<open>
  When every call of the grader returns, the loop keeps the chunks graded relevant, in
  order, after the ones it already held, and raises the flag when some chunk is graded
  irrelevant; when a call raises, so does the loop.
\<close>

lemma grade_loop_Inr:
  "\<forall>d\<in>set ds. \<not> isl (retrieval_grader_invoke E q (page_content d)) \<Longrightarrow>
   grade_loop E q ds acc flag =
     Inr (acc @ filter (graded_relevant E q) ds,
          if \<exists>d\<in>set ds. graded_irrelevant E q d then ''Yes'' else flag)"
  by (induction ds arbitrary: acc flag)
     (auto simp: graded_relevant_def graded_irrelevant_def split: sum.splits)

lemma grade_loop_Inl:
  "\<exists>d\<in>set ds. isl (retrieval_grader_invoke E q (page_content d)) \<Longrightarrow>
   isl (grade_loop E q ds acc flag)"
  by (induction ds arbitrary: acc flag) (auto split: sum.splits)

lemma grade_documents_Inr_iff:
  "grade_documents E state = Inr state' \<longleftrightarrow>
     (\<forall>d\<in>set (documents state). \<not> isl (retrieval_grader_invoke E (question state) (page_content d))) \<and>
     state' = state\<lparr>documents := filter (graded_relevant E (question state)) (documents state),
                    search := (if \<exists>d\<in>set (documents state). graded_irrelevant E (question state) d
                               then ''Yes'' else ''No''),
                    steps := steps state @ [''grade_document_retrieval'']\<rparr>"
proof (cases "\<forall>d\<in>set (documents state). \<not> isl (retrieval_grader_invoke E (question state) (page_content d))")
  case True
  have "grade_loop E (question state) (documents state) [] ''No'' =
          Inr (filter (graded_relevant E (question state)) (documents state),
               if \<exists>d\<in>set (documents state). graded_irrelevant E (question state) d
               then ''Yes'' else ''No'')"
    using grade_loop_Inr [OF True, of "[]" "''No''"] by simp
  with True show ?thesis
    by (simp add: grade_documents_def Let_def eq_commute [of _ state'])
next
  case False
  then have "isl (grade_loop E (question state) (documents state) [] ''No'')"
    by (intro grade_loop_Inl) blast
  with False show ?thesis
    by (auto simp: grade_documents_def Let_def split: sum.splits)
qed

lemma run_graph_workflow:
  "run_graph (Suc (Suc (Suc (Suc (Suc k))))) workflow E (entry_point workflow) state =
     (case retrieve E state of
        Inl e \<Rightarrow> Inl e
      | Inr s1 \<Rightarrow>
          (case grade_documents E s1 of
             Inl e \<Rightarrow> Inl e
           | Inr s2 \<Rightarrow>
               if search s2 = ''Yes''
               then (case web_search E s2 of Inl e \<Rightarrow> Inl e | Inr s3 \<Rightarrow> generate E s3)
               else generate E s2))"
  by (simp add: workflow_def next_node_def END_def decide_to_generate_def
           split: sum.splits)

lemma app_invoke_unfold:
  "app_invoke E state =
     (case retrieve E state of
        Inl e \<Rightarrow> Inl e
      | Inr s1 \<Rightarrow>
          (case grade_documents E s1 of
             Inl e \<Rightarrow> Inl e
           | Inr s2 \<Rightarrow>
               if search s2 = ''Yes''
               then (case web_search E s2 of Inl e \<Rightarrow> Inl e | Inr s3 \<Rightarrow> generate E s3)
               else generate E s2))"
proof -
  have lim: "recursion_limit = Suc (Suc (Suc (Suc (Suc 20))))"
    by (simp add: recursion_limit_def)
  show ?thesis
    unfolding app_invoke_def lim by (rule run_graph_workflow)
qed

section \<open>Grading\<close>

text \<open>
  Claim C1, as amended. When the retrieved document list is empty, \<open>grade_documents\<close>
  returns an empty filtered list and the search flag \<^verbatim>\<open>"No"\<close>: the loop body never
  runs, so the flag keeps the value it was initialised with. A request whose retrieval
  returns no chunk therefore goes from grading straight to generation, and the web
  search is not run.
\<close>

theorem grade_documents_empty_keeps_No:
  "(documents state = [] \<longrightarrow>
      grade_documents E state =
        Inr (state\<lparr>documents := [], search := ''No'',
                   steps := steps state @ [''grade_document_retrieval'']\<rparr>))
   \<and> (retriever_invoke E q = Inr [] \<and> rag_chain_invoke E [] q = Inr gen \<longrightarrow>
      app_invoke E (initial_state q) =
        Inr \<lparr>question = q, generation = gen, search = ''No'', documents = [],
             steps = [''retrieve_documents'', ''grade_document_retrieval'',
                      ''generate_answer'']\<rparr>)"
  by (simp add: app_invoke_unfold retrieve_def grade_documents_def generate_def
        initial_state_def)

theorem grade_documents_empty_keeps_No_witness:
  "grade_documents no_chunk_services
     \<lparr>question = ''What is a slot?'', generation = '''', search = '''', documents = [],
      steps = [''retrieve_documents'']\<rparr>
   = Inr \<lparr>question = ''What is a slot?'', generation = '''', search = ''No'', documents = [],
          steps = [''retrieve_documents'', ''grade_document_retrieval'']\<rparr>
   \<and> app_invoke no_chunk_services (initial_state ''What is a slot?'')
   = Inr \<lparr>question = ''What is a slot?'', generation = ''SOURCE[1]'', search = ''No'',
          documents = [],
          steps = [''retrieve_documents'', ''grade_document_retrieval'', ''generate_answer'']\<rparr>"
  using grade_documents_empty_keeps_No [of "\<lparr>question = ''What is a slot?'', generation = '''', search = '''',
      documents = [], steps = [''retrieve_documents'']\<rparr>" no_chunk_services
      "''What is a slot?''" "''SOURCE[1]''"]
  by (simp add: no_chunk_services_def sample_services_def)

text \<open>
  Claim C1, as stated, fails: on an empty document list the flag is \<^verbatim>\<open>"No"\<close>, not
  \<^verbatim>\<open>"Yes"\<close>, and the trace of the request has no web-search step.
\<close>

theorem grade_documents_empty_flag_counterexample:
  "grade_documents no_chunk_services
     \<lparr>question = ''What is a slot?'', generation = '''', search = '''', documents = [],
      steps = [''retrieve_documents'']\<rparr>
   = Inr \<lparr>question = ''What is a slot?'', generation = '''', search = ''No'', documents = [],
          steps = [''retrieve_documents'', ''grade_document_retrieval'']\<rparr>
   \<and> search \<lparr>question = ''What is a slot?'', generation = '''', search = ''No'',
          documents = [], steps = [''retrieve_documents'', ''grade_document_retrieval'']\<rparr>
       \<noteq> ''Yes''
   \<and> app_invoke no_chunk_services (initial_state ''What is a slot?'')
   = Inr \<lparr>question = ''What is a slot?'', generation = ''SOURCE[1]'', search = ''No'',
          documents = [],
          steps = [''retrieve_documents'', ''grade_document_retrieval'', ''generate_answer'']\<rparr>"
  by (simp add: app_invoke_unfold retrieve_def grade_documents_def generate_def
        no_chunk_services_def sample_services_def initial_state_def)

text \<open>
  Claim C2. Whenever \<open>grade_documents\<close> returns, its search flag is \<^verbatim>\<open>"Yes"\<close> if and
  only if at least one of the documents is graded irrelevant, and its document list is
  exactly the documents graded \<^verbatim>\<open>"yes"\<close>, in their order. It returns whenever every
  call of the grader does.
\<close>

theorem grade_documents_flag_and_filter:
  "(grade_documents E state = Inr state' \<longrightarrow>
      (search state' = ''Yes'' \<longleftrightarrow>
         (\<exists>d\<in>set (documents state). graded_irrelevant E (question state) d))
      \<and> documents state' = filter (graded_relevant E (question state)) (documents state))
   \<and> ((\<forall>d\<in>set (documents state).
          \<not> isl (retrieval_grader_invoke E (question state) (page_content d))) \<longrightarrow>
      (\<exists>state''. grade_documents E state = Inr state''))"
  by (simp add: grade_documents_Inr_iff)

theorem grade_documents_flag_and_filter_witness:
  "grade_documents sample_services
     \<lparr>question = ''What is a slot?'', generation = '''', search = '''',
      documents = [clause_doc, weather_doc], steps = [''retrieve_documents'']\<rparr>
   = Inr \<lparr>question = ''What is a slot?'', generation = '''', search = ''Yes'',
          documents = [clause_doc],
          steps = [''retrieve_documents'', ''grade_document_retrieval'']\<rparr>
   \<and> graded_irrelevant sample_services ''What is a slot?'' weather_doc
   \<and> filter (graded_relevant sample_services ''What is a slot?'') [clause_doc, weather_doc]
       = [clause_doc]"
  using grade_documents_flag_and_filter [of sample_services "\<lparr>question = ''What is a slot?'', generation = '''', search = '''',
      documents = [clause_doc, weather_doc], steps = [''retrieve_documents'']\<rparr>"]
  by (simp add: grade_documents_def sample_services_def sample_grader_def
        graded_irrelevant_def graded_relevant_def clause_doc_def weather_doc_def)

text \<open>Replacing every score other than \<^verbatim>\<open>"yes"\<close> by \<^verbatim>\<open>"no"\<close> does not change the loop.\<close>

lemma grade_loop_with_enum_scores:
  "grade_loop (with_enum_scores E) q ds acc flag = grade_loop E q ds acc flag"
  by (induction ds arbitrary: acc flag)
     (auto simp: with_enum_scores_def score_as_enum_def split: sum.splits)

text \<open>
  Claim C10. When \<open>grade_documents\<close> returns and the grader's score for one of the
  documents is any string other than the lowercase \<^verbatim>\<open>"yes"\<close>, that document is not in
  the returned list and the search flag is \<^verbatim>\<open>"Yes"\<close>. There is no separate path for
  a score outside \<^verbatim>\<open>"yes"\<close> and \<^verbatim>\<open>"no"\<close>: replacing every such score by
  \<^verbatim>\<open>"no"\<close> leaves the outcome of \<open>grade_documents\<close> unchanged.
\<close>

theorem grade_documents_non_yes_dropped:
  "(grade_documents E state = Inr state' \<and> d \<in> set (documents state) \<and>
    retrieval_grader_invoke E (question state) (page_content d) = Inr score \<and>
    binary_score score \<noteq> ''yes'' \<longrightarrow>
      search state' = ''Yes'' \<and> d \<notin> set (documents state'))
   \<and> grade_documents (with_enum_scores E) state = grade_documents E state"
proof -
  have "grade_documents (with_enum_scores E) state = grade_documents E state"
    by (simp add: grade_documents_def grade_loop_with_enum_scores)
  moreover have "search state' = ''Yes'' \<and> d \<notin> set (documents state')"
    if "grade_documents E state = Inr state'" "d \<in> set (documents state)"
       "retrieval_grader_invoke E (question state) (page_content d) = Inr score"
       "binary_score score \<noteq> ''yes''"
  proof -
    have irr: "graded_irrelevant E (question state) d" and rel: "\<not> graded_relevant E (question state) d"
      using that(3,4) by (simp_all add: graded_irrelevant_def graded_relevant_def)
    from that(1) have
      "state' = state\<lparr>documents := filter (graded_relevant E (question state)) (documents state),
                    search := (if \<exists>d\<in>set (documents state). graded_irrelevant E (question state) d
                               then ''Yes'' else ''No''),
                    steps := steps state @ [''grade_document_retrieval'']\<rparr>"
      by (simp add: grade_documents_Inr_iff)
    with irr rel that(2) show ?thesis by auto
  qed
  ultimately show ?thesis by blast
qed

theorem grade_documents_non_yes_dropped_witness:
  "grade_documents sample_services
     \<lparr>question = ''What is a slot?'', generation = '''', search = '''',
      documents = [clause_doc, weather_doc], steps = [''retrieve_documents'']\<rparr>
   = Inr \<lparr>question = ''What is a slot?'', generation = '''', search = ''Yes'',
          documents = [clause_doc],
          steps = [''retrieve_documents'', ''grade_document_retrieval'']\<rparr>
   \<and> retrieval_grader_invoke sample_services ''What is a slot?'' (page_content weather_doc)
       = Inr \<lparr>binary_score = ''Yes''\<rparr>
   \<and> weather_doc \<notin> set [clause_doc]
   \<and> grade_documents (with_enum_scores sample_services)
     \<lparr>question = ''What is a slot?'', generation = '''', search = '''',
      documents = [clause_doc, weather_doc], steps = [''retrieve_documents'']\<rparr>
   = Inr \<lparr>question = ''What is a slot?'', generation = '''', search = ''Yes'',
          documents = [clause_doc],
          steps = [''retrieve_documents'', ''grade_document_retrieval'']\<rparr>"
  using grade_documents_non_yes_dropped [of sample_services "\<lparr>question = ''What is a slot?'', generation = '''', search = '''',
      documents = [clause_doc, weather_doc], steps = [''retrieve_documents'']\<rparr>"
      "\<lparr>question = ''What is a slot?'', generation = '''', search = ''Yes'',
          documents = [clause_doc],
          steps = [''retrieve_documents'', ''grade_document_retrieval'']\<rparr>"
      weather_doc "\<lparr>binary_score = ''Yes''\<rparr>"]
  by (simp add: grade_documents_def sample_services_def sample_grader_def
        clause_doc_def weather_doc_def)

section \<open>Requests\<close>

text \<open>
  A request that completes took one of two paths. Either every retrieved chunk was graded
  relevant and the run went retrieve, grade, generate; or some chunk was graded
  irrelevant and the run went retrieve, grade, web search, generate.
\<close>

lemma wrap_results_Inr:
  "wrap_results rs = Inr ws \<Longrightarrow> list_all2 url_only_chunk rs ws"
  by (induction rs arbitrary: ws)
     (auto simp: wrap_result_def url_only_chunk_def split: sum.splits option.splits)

lemma retrieve_initial_state:
  "retrieve E (initial_state q) = Inr s1 \<longleftrightarrow>
     (\<exists>docs. retriever_invoke E q = Inr docs \<and>
        s1 = \<lparr>question = q, generation = '''', search = '''', documents = docs,
              steps = [''retrieve_documents'']\<rparr>)"
  by (auto simp: retrieve_def initial_state_def split: sum.splits)

lemma not_irrelevant_is_relevant:
  "\<not> isl (retrieval_grader_invoke E q (page_content d)) \<Longrightarrow>
   graded_relevant E q d \<longleftrightarrow> \<not> graded_irrelevant E q d"
  by (cases "retrieval_grader_invoke E q (page_content d)")
     (simp_all add: graded_relevant_def graded_irrelevant_def)

lemma app_invoke_initial_cases:
  assumes "app_invoke E (initial_state q) = Inr final"
  obtains
    (direct) docs gen where
      "retriever_invoke E q = Inr docs"
      "\<forall>d\<in>set docs. graded_relevant E q d"
      "rag_chain_invoke E docs q = Inr gen"
      "final = \<lparr>question = q, generation = gen, search = ''No'', documents = docs,
                steps = [''retrieve_documents'', ''grade_document_retrieval'',
                         ''generate_answer'']\<rparr>"
  | (searched) docs results wdocs gen where
      "retriever_invoke E q = Inr docs"
      "\<forall>d\<in>set docs. \<not> isl (retrieval_grader_invoke E q (page_content d))"
      "\<exists>d\<in>set docs. graded_irrelevant E q d"
      "web_search_tool_invoke E q = Inr results"
      "wrap_results results = Inr wdocs"
      "rag_chain_invoke E (filter (graded_relevant E q) docs @ wdocs) q = Inr gen"
      "final = \<lparr>question = q, generation = gen, search = ''Yes'',
                documents = filter (graded_relevant E q) docs @ wdocs,
                steps = [''retrieve_documents'', ''grade_document_retrieval'',
                         ''web_search'', ''generate_answer'']\<rparr>"
proof -
  from assms obtain s1 s2 where
    s1: "retrieve E (initial_state q) = Inr s1" and
    s2: "grade_documents E s1 = Inr s2" and
    rest: "(if search s2 = ''Yes''
            then (case web_search E s2 of Inl e \<Rightarrow> Inl e | Inr s3 \<Rightarrow> generate E s3)
            else generate E s2) = Inr final"
    by (auto simp: app_invoke_unfold split: sum.splits)
  from s1 obtain docs where
    docs: "retriever_invoke E q = Inr docs" and
    s1_eq: "s1 = \<lparr>question = q, generation = '''', search = '''', documents = docs,
                  steps = [''retrieve_documents'']\<rparr>"
    by (auto simp: retrieve_initial_state)
  from s2 have
    ok: "\<forall>d\<in>set docs. \<not> isl (retrieval_grader_invoke E q (page_content d))" and
    s2_eq: "s2 = \<lparr>question = q, generation = '''',
                  search = (if \<exists>d\<in>set docs. graded_irrelevant E q d then ''Yes'' else ''No''),
                  documents = filter (graded_relevant E q) docs,
                  steps = [''retrieve_documents'', ''grade_document_retrieval'']\<rparr>"
    by (simp_all add: grade_documents_Inr_iff s1_eq)
  show thesis
  proof (cases "\<exists>d\<in>set docs. graded_irrelevant E q d")
    case False
    with ok have all_rel: "\<forall>d\<in>set docs. graded_relevant E q d"
      by (simp add: not_irrelevant_is_relevant)
    then have keep: "filter (graded_relevant E q) docs = docs"
      by simp
    from False rest obtain gen where
      "rag_chain_invoke E docs q = Inr gen"
      "final = \<lparr>question = q, generation = gen, search = ''No'', documents = docs,
                steps = [''retrieve_documents'', ''grade_document_retrieval'',
                         ''generate_answer'']\<rparr>"
      by (auto simp: s2_eq keep generate_def Let_def split: sum.splits)
    with docs all_rel show thesis by (rule direct)
  next
    case True
    with rest obtain s3 where
      s3: "web_search E s2 = Inr s3" and fin: "generate E s3 = Inr final"
      by (auto simp: s2_eq split: sum.splits)
    from s3 True obtain results wdocs where
      res: "web_search_tool_invoke E q = Inr results" and
      wr: "wrap_results results = Inr wdocs" and
      s3_eq: "s3 = \<lparr>question = q, generation = '''', search = ''Yes'',
                    documents = filter (graded_relevant E q) docs @ wdocs,
                    steps = [''retrieve_documents'', ''grade_document_retrieval'',
                             ''web_search'']\<rparr>"
      by (auto simp: s2_eq web_search_def Let_def split: sum.splits)
    from fin obtain gen where
      "rag_chain_invoke E (filter (graded_relevant E q) docs @ wdocs) q = Inr gen"
      "final = \<lparr>question = q, generation = gen, search = ''Yes'',
                documents = filter (graded_relevant E q) docs @ wdocs,
                steps = [''retrieve_documents'', ''grade_document_retrieval'',
                         ''web_search'', ''generate_answer'']\<rparr>"
      by (auto simp: s3_eq generate_def Let_def split: sum.splits)
    with docs ok True res wr show thesis by (rule searched)
  qed
qed

text \<open>Three requests, evaluated.\<close>

lemma graded_relevant_returns:
  "graded_relevant E q d \<Longrightarrow> \<not> isl (retrieval_grader_invoke E q (page_content d))"
  by (simp add: graded_relevant_def split: sum.splits)

lemma graded_relevant_not_irrelevant:
  "graded_relevant E q d \<Longrightarrow> \<not> graded_irrelevant E q d"
  by (simp add: graded_relevant_def graded_irrelevant_def split: sum.splits)

lemma sample_request:
  "app_invoke sample_services (initial_state ''What is a slot?'') =
     Inr \<lparr>question = ''What is a slot?'', generation = ''SOURCE[1]'', search = ''Yes'',
          documents = [clause_doc, web_doc],
          steps = [''retrieve_documents'', ''grade_document_retrieval'', ''web_search'',
                   ''generate_answer'']\<rparr>"
  by (simp add: app_invoke_unfold retrieve_def grade_documents_def web_search_def
        generate_def wrap_result_def initial_state_def sample_services_def
        sample_grader_def clause_doc_def weather_doc_def web_doc_def)

lemma relevant_only_request:
  "app_invoke relevant_only_services (initial_state ''What is a slot?'') =
     Inr \<lparr>question = ''What is a slot?'', generation = ''SOURCE[1]'', search = ''No'',
          documents = [clause_doc],
          steps = [''retrieve_documents'', ''grade_document_retrieval'',
                   ''generate_answer'']\<rparr>"
  by (simp add: app_invoke_unfold retrieve_def grade_documents_def
        generate_def initial_state_def relevant_only_services_def sample_services_def
        sample_grader_def clause_doc_def)

lemma no_hit_request:
  "app_invoke no_hit_services (initial_state ''What is a slot?'') =
     Inr \<lparr>question = ''What is a slot?'', generation = ''SOURCE[1]'', search = ''Yes'',
          documents = [clause_doc],
          steps = [''retrieve_documents'', ''grade_document_retrieval'', ''web_search'',
                   ''generate_answer'']\<rparr>"
  by (simp add: app_invoke_unfold retrieve_def grade_documents_def web_search_def
        generate_def initial_state_def no_hit_services_def sample_services_def
        sample_grader_def clause_doc_def weather_doc_def)

text \<open>
  Claim C7. Every request started with the standard initial state that completes has a
  non-empty step-trace whose first entry is \<^verbatim>\<open>"retrieve_documents"\<close>.
\<close>

theorem trace_starts_with_retrieval:
  "app_invoke E (initial_state q) = Inr final \<Longrightarrow>
   steps final \<noteq> [] \<and> hd (steps final) = ''retrieve_documents''"
  by (erule app_invoke_initial_cases) simp_all

theorem trace_starts_with_retrieval_witness:
  "app_invoke relevant_only_services (initial_state ''What is a slot?'') =
     Inr \<lparr>question = ''What is a slot?'', generation = ''SOURCE[1]'', search = ''No'',
          documents = [clause_doc],
          steps = [''retrieve_documents'', ''grade_document_retrieval'',
                   ''generate_answer'']\<rparr>
   \<and> hd [''retrieve_documents'', ''grade_document_retrieval'', ''generate_answer'']
       = ''retrieve_documents''"
  using trace_starts_with_retrieval [OF relevant_only_request] relevant_only_request by simp

text \<open>
  Claim C6. In the step-trace of every completed request, \<^verbatim>\<open>"generate_answer"\<close>
  occurs exactly once and is the last entry.
\<close>

theorem generation_once_and_last:
  "app_invoke E (initial_state q) = Inr final \<Longrightarrow>
   count_list (steps final) ''generate_answer'' = 1 \<and> steps final \<noteq> [] \<and>
   last (steps final) = ''generate_answer''"
  by (erule app_invoke_initial_cases) simp_all

theorem generation_once_and_last_witness:
  "app_invoke sample_services (initial_state ''What is a slot?'') =
     Inr \<lparr>question = ''What is a slot?'', generation = ''SOURCE[1]'', search = ''Yes'',
          documents = [clause_doc, web_doc],
          steps = [''retrieve_documents'', ''grade_document_retrieval'', ''web_search'',
                   ''generate_answer'']\<rparr>
   \<and> count_list [''retrieve_documents'', ''grade_document_retrieval'', ''web_search'',
                   ''generate_answer''] ''generate_answer'' = 1
   \<and> last [''retrieve_documents'', ''grade_document_retrieval'', ''web_search'',
            ''generate_answer''] = ''generate_answer''"
  using generation_once_and_last [OF sample_request] sample_request by simp

text \<open>
  Claim C5. When every retrieved chunk is graded relevant, the step-trace of the
  completed request has no \<^verbatim>\<open>"web_search"\<close> entry, and the documents passed to
  generation are the filtered list that grading returned (here, all the retrieved
  chunks).
\<close>

theorem all_relevant_skips_web_search:
  assumes "app_invoke E (initial_state q) = Inr final"
    and "retriever_invoke E q = Inr docs"
    and "\<forall>d\<in>set docs. graded_relevant E q d"
  shows "''web_search'' \<notin> set (steps final)
     \<and> (\<exists>s1 s2. retrieve E (initial_state q) = Inr s1 \<and> grade_documents E s1 = Inr s2
                \<and> documents final = documents s2)
     \<and> documents final = docs
     \<and> rag_chain_invoke E (documents final) q = Inr (generation final)"
  using assms(1)
proof (cases rule: app_invoke_initial_cases)
  case (direct docs' gen)
  with assms(2) have [simp]: "docs' = docs" by simp
  have ok: "\<forall>d\<in>set docs. \<not> isl (retrieval_grader_invoke E q (page_content d))"
    using assms(3) by (blast dest: graded_relevant_returns)
  have "retrieve E (initial_state q) =
          Inr \<lparr>question = q, generation = '''', search = '''', documents = docs,
               steps = [''retrieve_documents'']\<rparr>"
    using assms(2) by (simp add: retrieve_initial_state)
  moreover have "\<exists>s2. grade_documents E \<lparr>question = q, generation = '''', search = '''',
        documents = docs, steps = [''retrieve_documents'']\<rparr> = Inr s2 \<and> documents s2 = docs"
    using ok assms(3) by (simp add: grade_documents_Inr_iff)
  ultimately show ?thesis
    using direct by auto
next
  case (searched docs' results wdocs gen)
  with assms(2) have "docs' = docs" by simp
  with searched(3) assms(3) have False
    by (blast dest: graded_relevant_not_irrelevant)
  then show ?thesis ..
qed

theorem all_relevant_skips_web_search_witness:
  "app_invoke relevant_only_services (initial_state ''What is a slot?'') =
     Inr \<lparr>question = ''What is a slot?'', generation = ''SOURCE[1]'', search = ''No'',
          documents = [clause_doc],
          steps = [''retrieve_documents'', ''grade_document_retrieval'',
                   ''generate_answer'']\<rparr>
   \<and> retriever_invoke relevant_only_services ''What is a slot?'' = Inr [clause_doc]
   \<and> graded_relevant relevant_only_services ''What is a slot?'' clause_doc
   \<and> ''web_search'' \<notin> set [''retrieve_documents'', ''grade_document_retrieval'',
                              ''generate_answer'']"
proof -
  have r: "retriever_invoke relevant_only_services ''What is a slot?'' = Inr [clause_doc]"
    by (simp add: relevant_only_services_def sample_services_def)
  have g: "\<forall>d\<in>set [clause_doc]. graded_relevant relevant_only_services ''What is a slot?'' d"
    by (simp add: graded_relevant_def relevant_only_services_def sample_services_def
          sample_grader_def clause_doc_def)
  from all_relevant_skips_web_search [OF relevant_only_request r g] relevant_only_request r g
  show ?thesis by simp
qed

text \<open>
  Claim C4, as amended. When at least one retrieved chunk is graded irrelevant, the
  step-trace of the completed request has exactly one \<^verbatim>\<open>"web_search"\<close> entry, and the
  documents passed to generation are the filtered list that grading returned followed
  by the search results, each wrapped as a chunk whose only metadata tag is the URL. The
  filtered chunks are all kept; the final list is longer than the filtered one exactly
  when the search returned at least one result.
\<close>

theorem irrelevant_chunk_appends_web_results:
  assumes "app_invoke E (initial_state q) = Inr final"
    and "retriever_invoke E q = Inr docs"
    and "\<exists>d\<in>set docs. graded_irrelevant E q d"
  shows "count_list (steps final) ''web_search'' = 1
     \<and> (\<exists>s1 s2 results wdocs.
           retrieve E (initial_state q) = Inr s1 \<and> grade_documents E s1 = Inr s2
         \<and> documents s2 = filter (graded_relevant E q) docs
         \<and> web_search_tool_invoke E q = Inr results
         \<and> list_all2 url_only_chunk results wdocs
         \<and> documents final = documents s2 @ wdocs
         \<and> set (documents s2) \<subseteq> set (documents final)
         \<and> (length (documents s2) < length (documents final) \<longleftrightarrow> results \<noteq> []))
     \<and> rag_chain_invoke E (documents final) q = Inr (generation final)"
  using assms(1)
proof (cases rule: app_invoke_initial_cases)
  case (direct docs' gen)
  with assms(2) have "docs' = docs" by simp
  with direct(2) assms(3) have False
    by (blast dest: graded_relevant_not_irrelevant)
  then show ?thesis ..
next
  case (searched docs' results wdocs gen)
  with assms(2) have [simp]: "docs' = docs" by simp
  have s1: "retrieve E (initial_state q) =
          Inr \<lparr>question = q, generation = '''', search = '''', documents = docs,
               steps = [''retrieve_documents'']\<rparr>"
    using assms(2) by (simp add: retrieve_initial_state)
  have s2: "\<exists>s2. grade_documents E \<lparr>question = q, generation = '''', search = '''',
        documents = docs, steps = [''retrieve_documents'']\<rparr> = Inr s2
        \<and> documents s2 = filter (graded_relevant E q) docs"
    using searched(2) by (simp add: grade_documents_Inr_iff)
  have wr: "list_all2 url_only_chunk results wdocs"
    using searched(5) by (rule wrap_results_Inr)
  then have len: "length wdocs = length results"
    by (simp add: list_all2_lengthD)
  have "count_list (steps final) ''web_search'' = 1"
    and "rag_chain_invoke E (documents final) q = Inr (generation final)"
    using searched by simp_all
  moreover have "\<exists>s1 s2 results wdocs.
           retrieve E (initial_state q) = Inr s1 \<and> grade_documents E s1 = Inr s2
         \<and> documents s2 = filter (graded_relevant E q) docs
         \<and> web_search_tool_invoke E q = Inr results
         \<and> list_all2 url_only_chunk results wdocs
         \<and> documents final = documents s2 @ wdocs
         \<and> set (documents s2) \<subseteq> set (documents final)
         \<and> (length (documents s2) < length (documents final) \<longleftrightarrow> results \<noteq> [])"
    using s1 s2 wr len searched(4,7) by auto
  ultimately show ?thesis by blast
qed

theorem irrelevant_chunk_appends_web_results_witness:
  "app_invoke sample_services (initial_state ''What is a slot?'') =
     Inr \<lparr>question = ''What is a slot?'', generation = ''SOURCE[1]'', search = ''Yes'',
          documents = [clause_doc, web_doc],
          steps = [''retrieve_documents'', ''grade_document_retrieval'', ''web_search'',
                   ''generate_answer'']\<rparr>
   \<and> retriever_invoke sample_services ''What is a slot?'' = Inr [clause_doc, weather_doc]
   \<and> graded_irrelevant sample_services ''What is a slot?'' weather_doc
   \<and> count_list [''retrieve_documents'', ''grade_document_retrieval'', ''web_search'',
                   ''generate_answer''] ''web_search'' = 1
   \<and> url_only_chunk [''url'' \<mapsto> ''https://example.org/vsa'', ''content'' \<mapsto> ''Web result'']
        web_doc"
proof -
  have r: "retriever_invoke sample_services ''What is a slot?'' = Inr [clause_doc, weather_doc]"
    by (simp add: sample_services_def)
  have g: "graded_irrelevant sample_services ''What is a slot?'' weather_doc"
    by (simp add: graded_irrelevant_def sample_services_def sample_grader_def weather_doc_def)
  then have g': "\<exists>d\<in>set [clause_doc, weather_doc].
      graded_irrelevant sample_services ''What is a slot?'' d"
    by simp
  have u: "url_only_chunk [''url'' \<mapsto> ''https://example.org/vsa'', ''content'' \<mapsto> ''Web result'']
        web_doc"
    by (simp add: url_only_chunk_def web_doc_def)
  from irrelevant_chunk_appends_web_results [OF sample_request r g'] sample_request r g u
  show ?thesis by simp
qed

text \<open>
  Claim C4, as stated, fails: when the search returns no result the final documents are
  the filtered ones, not a strict superset of them.
\<close>

theorem web_search_strict_superset_counterexample:
  "app_invoke no_hit_services (initial_state ''What is a slot?'') =
     Inr \<lparr>question = ''What is a slot?'', generation = ''SOURCE[1]'', search = ''Yes'',
          documents = [clause_doc],
          steps = [''retrieve_documents'', ''grade_document_retrieval'', ''web_search'',
                   ''generate_answer'']\<rparr>
   \<and> retriever_invoke no_hit_services ''What is a slot?'' = Inr [clause_doc, weather_doc]
   \<and> graded_irrelevant no_hit_services ''What is a slot?'' weather_doc
   \<and> filter (graded_relevant no_hit_services ''What is a slot?'') [clause_doc, weather_doc]
       = [clause_doc]
   \<and> \<not> set (filter (graded_relevant no_hit_services ''What is a slot?'')
               [clause_doc, weather_doc])
         \<subset> set (documents
               \<lparr>question = ''What is a slot?'', generation = ''SOURCE[1]'', search = ''Yes'',
                documents = [clause_doc],
                steps = [''retrieve_documents'', ''grade_document_retrieval'', ''web_search'',
                         ''generate_answer'']\<rparr>)"
  using no_hit_request
  by (simp add: graded_irrelevant_def graded_relevant_def no_hit_services_def
        sample_services_def sample_grader_def weather_doc_def clause_doc_def)

section \<open>The transitions of the graph\<close>

text \<open>
  Claim C3. The graph has one conditional branch, after \<open>grade_documents\<close>: the next
  node is \<open>web_search\<close> when the search flag is \<^verbatim>\<open>"Yes"\<close> and \<open>generate\<close>
  otherwise. \<open>web_search\<close> is followed by \<open>generate\<close>, and \<open>generate\<close> is the only
  node followed by the terminal state. The executor takes exactly these transitions.
\<close>

theorem workflow_transitions:
  "next_node workflow ''grade_documents'' state =
     Some (if search state = ''Yes'' then ''web_search'' else ''generate'')
   \<and> next_node workflow ''web_search'' state = Some ''generate''
   \<and> (next_node workflow n state = Some END \<longleftrightarrow> n = ''generate'')
   \<and> map fst (conditional_edges workflow) = [''grade_documents'']
   \<and> run_graph (Suc k) workflow E ''grade_documents'' state =
       (case grade_documents E state of
          Inl e \<Rightarrow> Inl e
        | Inr s \<Rightarrow>
            run_graph k workflow E (if search s = ''Yes'' then ''web_search'' else ''generate'') s)
   \<and> run_graph (Suc k) workflow E ''web_search'' state =
       (case web_search E state of
          Inl e \<Rightarrow> Inl e
        | Inr s \<Rightarrow> run_graph k workflow E ''generate'' s)
   \<and> run_graph (Suc k) workflow E ''generate'' state = generate E state"
proof -
  have stop: "run_graph k workflow E END s = Inr s" for s
    by (cases k) simp_all
  have "next_node workflow n state = Some END \<longleftrightarrow> n = ''generate''"
    by (auto simp: next_node_def workflow_def END_def decide_to_generate_def)
  moreover have "run_graph (Suc k) workflow E ''generate'' state = generate E state"
    using stop by (simp add: next_node_def workflow_def END_def split: sum.splits)
  moreover have "run_graph (Suc k) workflow E ''grade_documents'' state =
       (case grade_documents E state of
          Inl e \<Rightarrow> Inl e
        | Inr s \<Rightarrow>
            run_graph k workflow E (if search s = ''Yes'' then ''web_search'' else ''generate'') s)"
    by (simp add: next_node_def workflow_def END_def decide_to_generate_def split: sum.splits)
  moreover have "run_graph (Suc k) workflow E ''web_search'' state =
       (case web_search E state of
          Inl e \<Rightarrow> Inl e
        | Inr s \<Rightarrow> run_graph k workflow E ''generate'' s)"
    by (simp add: next_node_def workflow_def END_def split: sum.splits)
  ultimately show ?thesis
    by (simp add: next_node_def workflow_def decide_to_generate_def)
qed

theorem workflow_transitions_witness:
  "next_node workflow ''grade_documents''
     \<lparr>question = ''What is a slot?'', generation = '''', search = ''Yes'',
      documents = [clause_doc],
      steps = [''retrieve_documents'', ''grade_document_retrieval'']\<rparr> = Some ''web_search''
   \<and> next_node workflow ''grade_documents''
     \<lparr>question = ''What is a slot?'', generation = '''', search = ''No'',
      documents = [clause_doc],
      steps = [''retrieve_documents'', ''grade_document_retrieval'']\<rparr> = Some ''generate''
   \<and> next_node workflow ''generate'' (initial_state []) = Some END
   \<and> next_node workflow ''web_search'' (initial_state []) \<noteq> Some END"
  using workflow_transitions [of "\<lparr>question = ''What is a slot?'', generation = '''', search = ''Yes'',
      documents = [clause_doc],
      steps = [''retrieve_documents'', ''grade_document_retrieval'']\<rparr>" "''generate''"]
  by (simp add: next_node_def workflow_def END_def decide_to_generate_def)

section \<open>Loading sources\<close>

text \<open>The loader raises at the first unsupported source it reaches, and succeeds on none.\<close>

lemma select_loader_unsupported:
  "\<not> supported_source source \<Longrightarrow>
   select_loader source = Inl (ValueError (''Unsupported source type: '' @ source))"
  by (simp add: select_loader_def supported_source_def)

lemma select_loader_supported:
  "select_loader source = Inr ld \<Longrightarrow> supported_source source"
  by (auto simp: select_loader_def supported_source_def split: if_splits)

lemma load_documents_loop_append:
  "load_documents_loop P pre docs0 = Inr docs \<Longrightarrow>
   load_documents_loop P (pre @ rest) docs0 = load_documents_loop P rest docs"
  by (induction pre arbitrary: docs0) (auto split: sum.splits)

lemma load_documents_loop_supported:
  "load_documents_loop P sources docs0 = Inr docs \<Longrightarrow> \<forall>s\<in>set sources. supported_source s"
  by (induction sources arbitrary: docs0)
     (auto split: sum.splits dest: select_loader_supported)

lemma load_documents_unsupported_fails:
  "\<exists>s\<in>set sources. \<not> supported_source s \<Longrightarrow> \<exists>e. load_documents P sources = Inl e"
  unfolding load_documents_def
  by (cases "load_documents_loop P sources []")
     (auto dest: load_documents_loop_supported)

text \<open>
  Claim C8. A source string that neither starts with \<^verbatim>\<open>http\<close> nor ends with
  \<^verbatim>\<open>.pdf\<close> makes \<open>load_documents\<close> raise the unsupported-source error as soon as the
  loop reaches it, without calling any loader on it, whatever the loaders do: at the head
  of the list, and after any prefix of sources that loaded. Loading succeeds only when
  every source is of one of the two supported kinds. When some source is unsupported,
  \<open>create_or_load_vectorstore\<close> builds and saves no index: it either raises or
  returns the index it loaded from disk, and the file system is as before.
\<close>

theorem unsupported_source_raises:
  fixes P :: "('fs, 'ix) platform"
  shows
  "(\<not> supported_source source \<longrightarrow>
      load_documents P (source # rest) =
        Inl (ValueError (''Unsupported source type: '' @ source)))
   \<and> (load_documents P pre = Inr loaded \<and> \<not> supported_source source \<longrightarrow>
      load_documents P (pre @ source # rest) =
        Inl (ValueError (''Unsupported source type: '' @ source)))
   \<and> (load_documents P sources = Inr docs \<longrightarrow>
      (\<forall>s\<in>set sources. startswith s ''http'' \<or> endswith s ''.pdf''))
   \<and> ((\<exists>s\<in>set srcs. \<not> supported_source s) \<longrightarrow>
      (case create_or_load_vectorstore P fs srcs index_name of
         (Inl e, fs', out) \<Rightarrow> fs' = fs
       | (Inr vectorstore, fs', out) \<Rightarrow>
           fs' = fs \<and>
           FAISS_load_local P fs
             (path_join (path_join (os_getcwd P fs) index_name) ''index'') = Inr vectorstore))"
proof -
  have head: "load_documents P (source # rest) =
        Inl (ValueError (''Unsupported source type: '' @ source))"
    if "\<not> supported_source source"
    using that by (simp add: load_documents_def select_loader_unsupported)
  have reached: "load_documents P (pre @ source # rest) =
        Inl (ValueError (''Unsupported source type: '' @ source))"
    if "load_documents P pre = Inr loaded" "\<not> supported_source source"
    using that
    by (simp add: load_documents_def load_documents_loop_append select_loader_unsupported)
  have only: "\<forall>s\<in>set sources. startswith s ''http'' \<or> endswith s ''.pdf''"
    if "load_documents P sources = Inr docs"
    using load_documents_loop_supported [of P sources "[]" docs] that
    by (simp add: load_documents_def supported_source_def)
  have no_index: "(case create_or_load_vectorstore P fs srcs index_name of
         (Inl e, fs', out) \<Rightarrow> fs' = fs
       | (Inr vectorstore, fs', out) \<Rightarrow>
           fs' = fs \<and>
           FAISS_load_local P fs
             (path_join (path_join (os_getcwd P fs) index_name) ''index'') = Inr vectorstore)"
    if "\<exists>s\<in>set srcs. \<not> supported_source s"
  proof -
    from that obtain e where "load_documents P srcs = Inl e"
      using load_documents_unsupported_fails by blast
    then show ?thesis
      by (simp add: create_or_load_vectorstore_def create_new_vectorstore_def Let_def
            split: sum.splits)
  qed
  from head reached only no_index show ?thesis by blast
qed

theorem unsupported_source_raises_witness:
  "load_documents sample_platform [''notes.docx'', ''./index_vsa/vsa.pdf''] =
     Inl (ValueError ''Unsupported source type: notes.docx'')
   \<and> load_documents sample_platform [''https://example.org/vsa''] = Inr [web_doc]
   \<and> load_documents sample_platform
       [''https://example.org/vsa'', ''notes.docx'', ''./index_vsa/vsa.pdf''] =
     Inl (ValueError ''Unsupported source type: notes.docx'')
   \<and> load_documents sample_platform [''https://example.org/vsa'', ''./index_vsa/vsa.pdf''] =
     Inr [web_doc, clause_doc, weather_doc]
   \<and> create_or_load_vectorstore sample_platform [] [''./index_vsa/vsa.pdf'', ''notes.docx'']
       ''index_vsa'' =
     (Inl (ValueError ''Unsupported source type: notes.docx''), [],
      [''Checking for index at: /app/index_vsa/index/index.faiss'',
       ''Vector store not found at /app/index_vsa/index/index.faiss'',
       ''Creating new vector store...''])"
proof -
  have u: "\<not> supported_source ''notes.docx''"
    by (simp add: supported_source_def startswith_def endswith_def)
  have l1: "load_documents sample_platform [''https://example.org/vsa''] = Inr [web_doc]"
    by (simp add: load_documents_def select_loader_def startswith_def sample_platform_def)
  have l2: "load_documents sample_platform [''https://example.org/vsa'', ''./index_vsa/vsa.pdf''] =
     Inr [web_doc, clause_doc, weather_doc]"
    by (simp add: load_documents_def select_loader_def startswith_def endswith_def
          sample_platform_def)
  have c: "create_or_load_vectorstore sample_platform [] [''./index_vsa/vsa.pdf'', ''notes.docx'']
       ''index_vsa'' =
     (Inl (ValueError ''Unsupported source type: notes.docx''), [],
      [''Checking for index at: /app/index_vsa/index/index.faiss'',
       ''Vector store not found at /app/index_vsa/index/index.faiss'',
       ''Creating new vector store...''])"
    by (simp add: create_or_load_vectorstore_def create_new_vectorstore_def Let_def
          load_documents_def select_loader_def path_join_def startswith_def endswith_def
          sample_platform_def)
  from unsupported_source_raises [of "''notes.docx''" sample_platform "[''./index_vsa/vsa.pdf'']"
      "[''https://example.org/vsa'']" "[web_doc]"
      "[''https://example.org/vsa'', ''./index_vsa/vsa.pdf'']" "[web_doc, clause_doc, weather_doc]"
      "[''./index_vsa/vsa.pdf'', ''notes.docx'']" "[]" "''index_vsa''"]
    u l1 l2 c
  show ?thesis by simp
qed

section \<open>Creating or loading the vector store\<close>

text \<open>The \<^verbatim>\<open>try\<close> block around the save, and the rebuild when every step of it returns.\<close>

lemma save_vectorstore_cases:
  "save_vectorstore P fs vectorstore index_dir index_path =
     (case os_makedirs P fs index_dir of
        Inl e \<Rightarrow> (fs, [''Error saving vector store: '' @ str_of_error e])
      | Inr fs1 \<Rightarrow>
          (case FAISS_save_local P fs1 vectorstore index_path of
             Inl e \<Rightarrow> (fs1, [''Error saving vector store: '' @ str_of_error e])
           | Inr fs2 \<Rightarrow> (fs2, [''Vector store saved successfully.''])))"
  by (simp add: save_vectorstore_def)

lemma create_new_vectorstore_built:
  assumes "load_documents P sources = Inr docs"
    and "split_documents P docs = Inr doc_splits"
    and "FAISS_from_documents P doc_splits = Inr built"
  shows "create_new_vectorstore P fs sources index_dir index_path out =
     (Inr built,
      fst (save_vectorstore P fs built index_dir index_path),
      out @ [''Creating new vector store...'', ''Saving vector store to '' @ index_path @ ''...'']
          @ snd (save_vectorstore P fs built index_dir index_path))"
  using assms by (simp add: create_new_vectorstore_def Let_def split: prod.splits)

text \<open>
  Claim C9, as amended. \<open>create_or_load_vectorstore\<close> returns the index loaded from the
  fixed path when \<^verbatim>\<open>index.faiss\<close> exists there and loading succeeds, and leaves the
  file system as it was. When loading fails, the error is printed and the function goes
  on as it does when no index exists: it rebuilds the index from the sources. A rebuilt
  index is returned and saved under the fixed path; a failure of the save (creating the
  directory or writing the index) is only printed, and the function still returns the
  index. A failure while loading the sources, splitting them or building the index is
  not caught: the function raises, and nothing is saved.
\<close>

theorem create_or_load_vectorstore_paths:
  fixes P :: "('fs, 'ix) platform"
  shows
  "(let index_dir = path_join (os_getcwd P fs) index_name;
        index_path = path_join index_dir ''index'';
        index_file = index_path @ ''/index.faiss''
    in (os_path_exists P fs index_file \<and> FAISS_load_local P fs index_path = Inr loaded \<longrightarrow>
          (\<exists>out. create_or_load_vectorstore P fs sources index_name = (Inr loaded, fs, out)))
     \<and> (os_path_exists P fs index_file \<and> FAISS_load_local P fs index_path = Inl e \<longrightarrow>
          (\<exists>out. create_or_load_vectorstore P fs sources index_name =
                   create_new_vectorstore P fs sources index_dir index_path out
                 \<and> ''Error loading vector store: '' @ str_of_error e \<in> set out))
     \<and> (\<not> os_path_exists P fs index_file \<longrightarrow>
          (\<exists>out. create_or_load_vectorstore P fs sources index_name =
                   create_new_vectorstore P fs sources index_dir index_path out)))
   \<and> (load_documents P srcs = Inr docs \<and> split_documents P docs = Inr doc_splits \<and>
      FAISS_from_documents P doc_splits = Inr built \<longrightarrow>
        (os_makedirs P fs' dir = Inr fs_dir \<and> FAISS_save_local P fs_dir built path = Inr fs_saved \<longrightarrow>
           (\<exists>out'. create_new_vectorstore P fs' srcs dir path out = (Inr built, fs_saved, out')))
      \<and> (os_makedirs P fs' dir = Inl e_mk \<longrightarrow>
           (\<exists>out'. create_new_vectorstore P fs' srcs dir path out = (Inr built, fs', out')
                  \<and> last out' = ''Error saving vector store: '' @ str_of_error e_mk))
      \<and> (os_makedirs P fs' dir = Inr fs_dir \<and> FAISS_save_local P fs_dir built path = Inl e_save \<longrightarrow>
           (\<exists>out'. create_new_vectorstore P fs' srcs dir path out = (Inr built, fs_dir, out')
                  \<and> last out' = ''Error saving vector store: '' @ str_of_error e_save)))
   \<and> (load_documents P srcs = Inl e_build
       \<or> load_documents P srcs = Inr docs \<and> split_documents P docs = Inl e_build
       \<or> load_documents P srcs = Inr docs \<and> split_documents P docs = Inr doc_splits \<and>
          FAISS_from_documents P doc_splits = Inl e_build \<longrightarrow>
        create_new_vectorstore P fs' srcs dir path out =
          (Inl e_build, fs', out @ [''Creating new vector store...'']))"
proof -
  have a: "\<exists>out. create_or_load_vectorstore P fs sources index_name = (Inr loaded, fs, out)"
    if "os_path_exists P fs (path_join (path_join (os_getcwd P fs) index_name) ''index'' @ ''/index.faiss'')"
       "FAISS_load_local P fs (path_join (path_join (os_getcwd P fs) index_name) ''index'') = Inr loaded"
    using that by (simp add: create_or_load_vectorstore_def Let_def)
  have b: "\<exists>out. create_or_load_vectorstore P fs sources index_name =
                   create_new_vectorstore P fs sources (path_join (os_getcwd P fs) index_name)
                     (path_join (path_join (os_getcwd P fs) index_name) ''index'') out
                 \<and> ''Error loading vector store: '' @ str_of_error e \<in> set out"
    if "os_path_exists P fs (path_join (path_join (os_getcwd P fs) index_name) ''index'' @ ''/index.faiss'')"
       "FAISS_load_local P fs (path_join (path_join (os_getcwd P fs) index_name) ''index'') = Inl e"
  proof (intro exI conjI)
    show "create_or_load_vectorstore P fs sources index_name =
        create_new_vectorstore P fs sources (path_join (os_getcwd P fs) index_name)
          (path_join (path_join (os_getcwd P fs) index_name) ''index'')
          ([''Checking for index at: '' @
              (path_join (path_join (os_getcwd P fs) index_name) ''index'' @ ''/index.faiss''),
            ''Loading existing vector store from '' @
              (path_join (path_join (os_getcwd P fs) index_name) ''index'' @ ''/index.faiss''),
            ''Error loading vector store: '' @ str_of_error e,
            ''Will create a new vector store.''])"
      using that by (simp add: create_or_load_vectorstore_def Let_def)
    show "''Error loading vector store: '' @ str_of_error e \<in>
        set [''Checking for index at: '' @
              (path_join (path_join (os_getcwd P fs) index_name) ''index'' @ ''/index.faiss''),
            ''Loading existing vector store from '' @
              (path_join (path_join (os_getcwd P fs) index_name) ''index'' @ ''/index.faiss''),
            ''Error loading vector store: '' @ str_of_error e,
            ''Will create a new vector store.'']"
      by simp
  qed
  have c: "\<exists>out. create_or_load_vectorstore P fs sources index_name =
                   create_new_vectorstore P fs sources (path_join (os_getcwd P fs) index_name)
                     (path_join (path_join (os_getcwd P fs) index_name) ''index'') out"
    if "\<not> os_path_exists P fs (path_join (path_join (os_getcwd P fs) index_name) ''index'' @ ''/index.faiss'')"
    using that by (simp add: create_or_load_vectorstore_def Let_def) (rule exI, rule refl)
  have d1: "\<exists>out'. create_new_vectorstore P fs' srcs dir path out = (Inr built, fs_saved, out')"
    if "load_documents P srcs = Inr docs" "split_documents P docs = Inr doc_splits"
       "FAISS_from_documents P doc_splits = Inr built"
       "os_makedirs P fs' dir = Inr fs_dir" "FAISS_save_local P fs_dir built path = Inr fs_saved"
    using that by (simp add: create_new_vectorstore_built save_vectorstore_cases)
  have d2: "\<exists>out'. create_new_vectorstore P fs' srcs dir path out = (Inr built, fs', out')
                  \<and> last out' = ''Error saving vector store: '' @ str_of_error e_mk"
    if "load_documents P srcs = Inr docs" "split_documents P docs = Inr doc_splits"
       "FAISS_from_documents P doc_splits = Inr built"
       "os_makedirs P fs' dir = Inl e_mk"
    using that by (simp add: create_new_vectorstore_built save_vectorstore_cases)
  have d3: "\<exists>out'. create_new_vectorstore P fs' srcs dir path out = (Inr built, fs_dir, out')
                  \<and> last out' = ''Error saving vector store: '' @ str_of_error e_save"
    if "load_documents P srcs = Inr docs" "split_documents P docs = Inr doc_splits"
       "FAISS_from_documents P doc_splits = Inr built"
       "os_makedirs P fs' dir = Inr fs_dir" "FAISS_save_local P fs_dir built path = Inl e_save"
    using that by (simp add: create_new_vectorstore_built save_vectorstore_cases)
  have f: "create_new_vectorstore P fs' srcs dir path out =
          (Inl e_build, fs', out @ [''Creating new vector store...''])"
    if "load_documents P srcs = Inl e_build
       \<or> load_documents P srcs = Inr docs \<and> split_documents P docs = Inl e_build
       \<or> load_documents P srcs = Inr docs \<and> split_documents P docs = Inr doc_splits \<and>
          FAISS_from_documents P doc_splits = Inl e_build"
    using that by (auto simp: create_new_vectorstore_def Let_def)
  from a b c have first: "(let index_dir = path_join (os_getcwd P fs) index_name;
        index_path = path_join index_dir ''index'';
        index_file = index_path @ ''/index.faiss''
    in (os_path_exists P fs index_file \<and> FAISS_load_local P fs index_path = Inr loaded \<longrightarrow>
          (\<exists>out. create_or_load_vectorstore P fs sources index_name = (Inr loaded, fs, out)))
     \<and> (os_path_exists P fs index_file \<and> FAISS_load_local P fs index_path = Inl e \<longrightarrow>
          (\<exists>out. create_or_load_vectorstore P fs sources index_name =
                   create_new_vectorstore P fs sources index_dir index_path out
                 \<and> ''Error loading vector store: '' @ str_of_error e \<in> set out))
     \<and> (\<not> os_path_exists P fs index_file \<longrightarrow>
          (\<exists>out. create_or_load_vectorstore P fs sources index_name =
                   create_new_vectorstore P fs sources index_dir index_path out)))"
    unfolding Let_def by blast
  from d1 d2 d3 f first show ?thesis by blast
qed


theorem create_or_load_vectorstore_paths_witness:
  "create_or_load_vectorstore loading_platform [''/app/index_vsa/index/index.faiss'']
       [''./index_vsa/vsa.pdf''] ''index_vsa'' =
     (Inr [clause_doc], [''/app/index_vsa/index/index.faiss''],
      [''Checking for index at: /app/index_vsa/index/index.faiss'',
       ''Loading existing vector store from /app/index_vsa/index/index.faiss'',
       ''Vector store loaded successfully.''])
   \<and> create_or_load_vectorstore sample_platform [''/app/index_vsa/index/index.faiss'']
       [''./index_vsa/vsa.pdf''] ''index_vsa'' =
     (Inr [clause_doc, weather_doc],
      [''/app/index_vsa'', ''/app/index_vsa/index/index.faiss''],
      [''Checking for index at: /app/index_vsa/index/index.faiss'',
       ''Loading existing vector store from /app/index_vsa/index/index.faiss'',
       ''Error loading vector store: corrupt index'',
       ''Will create a new vector store.'',
       ''Creating new vector store...'',
       ''Saving vector store to /app/index_vsa/index...'',
       ''Vector store saved successfully.''])
   \<and> create_or_load_vectorstore sample_platform [] [''./index_vsa/vsa.pdf''] ''index_vsa'' =
     (Inr [clause_doc, weather_doc],
      [''/app/index_vsa/index/index.faiss'', ''/app/index_vsa''],
      [''Checking for index at: /app/index_vsa/index/index.faiss'',
       ''Vector store not found at /app/index_vsa/index/index.faiss'',
       ''Creating new vector store...'',
       ''Saving vector store to /app/index_vsa/index...'',
       ''Vector store saved successfully.''])
   \<and> create_or_load_vectorstore full_disk_platform [] [''./index_vsa/vsa.pdf''] ''index_vsa'' =
     (Inr [clause_doc, weather_doc], [''/app/index_vsa''],
      [''Checking for index at: /app/index_vsa/index/index.faiss'',
       ''Vector store not found at /app/index_vsa/index/index.faiss'',
       ''Creating new vector store...'',
       ''Saving vector store to /app/index_vsa/index...'',
       ''Error saving vector store: No space left on device''])
   \<and> create_or_load_vectorstore no_embedding_platform [] [''./index_vsa/vsa.pdf''] ''index_vsa'' =
     (Inl (ServiceError ''Connection error.''), [],
      [''Checking for index at: /app/index_vsa/index/index.faiss'',
       ''Vector store not found at /app/index_vsa/index/index.faiss'',
       ''Creating new vector store...''])"
proof -
  note defs = create_or_load_vectorstore_def create_new_vectorstore_def save_vectorstore_def
    Let_def load_documents_def select_loader_def path_join_def startswith_def endswith_def
    sample_platform_def
  have 1: "create_or_load_vectorstore loading_platform [''/app/index_vsa/index/index.faiss'']
       [''./index_vsa/vsa.pdf''] ''index_vsa'' =
     (Inr [clause_doc], [''/app/index_vsa/index/index.faiss''],
      [''Checking for index at: /app/index_vsa/index/index.faiss'',
       ''Loading existing vector store from /app/index_vsa/index/index.faiss'',
       ''Vector store loaded successfully.''])"
    by (simp add: defs loading_platform_def)
  have 2: "create_or_load_vectorstore sample_platform [''/app/index_vsa/index/index.faiss'']
       [''./index_vsa/vsa.pdf''] ''index_vsa'' =
     (Inr [clause_doc, weather_doc],
      [''/app/index_vsa'', ''/app/index_vsa/index/index.faiss''],
      [''Checking for index at: /app/index_vsa/index/index.faiss'',
       ''Loading existing vector store from /app/index_vsa/index/index.faiss'',
       ''Error loading vector store: corrupt index'',
       ''Will create a new vector store.'',
       ''Creating new vector store...'',
       ''Saving vector store to /app/index_vsa/index...'',
       ''Vector store saved successfully.''])"
    by (simp add: defs)
  have 3: "create_or_load_vectorstore sample_platform [] [''./index_vsa/vsa.pdf''] ''index_vsa'' =
     (Inr [clause_doc, weather_doc],
      [''/app/index_vsa/index/index.faiss'', ''/app/index_vsa''],
      [''Checking for index at: /app/index_vsa/index/index.faiss'',
       ''Vector store not found at /app/index_vsa/index/index.faiss'',
       ''Creating new vector store...'',
       ''Saving vector store to /app/index_vsa/index...'',
       ''Vector store saved successfully.''])"
    by (simp add: defs)
  have 4: "create_or_load_vectorstore full_disk_platform [] [''./index_vsa/vsa.pdf''] ''index_vsa'' =
     (Inr [clause_doc, weather_doc], [''/app/index_vsa''],
      [''Checking for index at: /app/index_vsa/index/index.faiss'',
       ''Vector store not found at /app/index_vsa/index/index.faiss'',
       ''Creating new vector store...'',
       ''Saving vector store to /app/index_vsa/index...'',
       ''Error saving vector store: No space left on device''])"
    by (simp add: defs full_disk_platform_def)
  have 5: "create_or_load_vectorstore no_embedding_platform [] [''./index_vsa/vsa.pdf''] ''index_vsa'' =
     (Inl (ServiceError ''Connection error.''), [],
      [''Checking for index at: /app/index_vsa/index/index.faiss'',
       ''Vector store not found at /app/index_vsa/index/index.faiss'',
       ''Creating new vector store...''])"
    by (simp add: defs no_embedding_platform_def)
  from 1 2 3 4 5
    create_or_load_vectorstore_paths [where P = loading_platform and fs = "[''/app/index_vsa/index/index.faiss'']"
      and index_name = "''index_vsa''" and loaded = "[clause_doc]"
      and sources = "[''./index_vsa/vsa.pdf'']"]
    create_or_load_vectorstore_paths [where P = sample_platform and fs = "[''/app/index_vsa/index/index.faiss'']"
      and index_name = "''index_vsa''" and e = "ServiceError ''corrupt index''"
      and sources = "[''./index_vsa/vsa.pdf'']" and srcs = "[''./index_vsa/vsa.pdf'']"
      and docs = "[clause_doc, weather_doc]" and doc_splits = "[clause_doc, weather_doc]"
      and built = "[clause_doc, weather_doc]" and fs' = "[]" and dir = "''/app/index_vsa''"
      and path = "''/app/index_vsa/index''" and fs_dir = "[''/app/index_vsa'']"
      and fs_saved = "[''/app/index_vsa/index/index.faiss'', ''/app/index_vsa'']"]
    create_or_load_vectorstore_paths [where P = full_disk_platform and fs = "[]"
      and index_name = "''index_vsa''"
      and sources = "[''./index_vsa/vsa.pdf'']" and srcs = "[''./index_vsa/vsa.pdf'']"
      and docs = "[clause_doc, weather_doc]" and doc_splits = "[clause_doc, weather_doc]"
      and built = "[clause_doc, weather_doc]" and fs' = "[]" and dir = "''/app/index_vsa''"
      and path = "''/app/index_vsa/index''" and fs_dir = "[''/app/index_vsa'']"
      and e_save = "ServiceError ''No space left on device''"]
    create_or_load_vectorstore_paths [where P = no_embedding_platform and fs = "[]"
      and index_name = "''index_vsa''"
      and sources = "[''./index_vsa/vsa.pdf'']" and srcs = "[''./index_vsa/vsa.pdf'']"
      and docs = "[clause_doc, weather_doc]" and doc_splits = "[clause_doc, weather_doc]"
      and fs' = "[]" and e_build = "ServiceError ''Connection error.''"]
  show ?thesis by simp
qed

text \<open>
  Claim C9, as stated, fails: with an index on disk that does not load, a rebuild that
  fails (an unsupported source, or an embedding service that is down) makes the
  function raise instead of returning an index, and the failure is not printed.
\<close>

theorem rebuild_failure_raises_counterexample:
  "create_or_load_vectorstore sample_platform [''/app/index_vsa/index/index.faiss'']
       [''notes.docx''] ''index_vsa'' =
     (Inl (ValueError ''Unsupported source type: notes.docx''),
      [''/app/index_vsa/index/index.faiss''],
      [''Checking for index at: /app/index_vsa/index/index.faiss'',
       ''Loading existing vector store from /app/index_vsa/index/index.faiss'',
       ''Error loading vector store: corrupt index'',
       ''Will create a new vector store.'',
       ''Creating new vector store...''])
   \<and> create_or_load_vectorstore no_embedding_platform [''/app/index_vsa/index/index.faiss'']
       [''./index_vsa/vsa.pdf''] ''index_vsa'' =
     (Inl (ServiceError ''Connection error.''),
      [''/app/index_vsa/index/index.faiss''],
      [''Checking for index at: /app/index_vsa/index/index.faiss'',
       ''Loading existing vector store from /app/index_vsa/index/index.faiss'',
       ''Error loading vector store: corrupt index'',
       ''Will create a new vector store.'',
       ''Creating new vector store...''])"
  by (simp add: create_or_load_vectorstore_def create_new_vectorstore_def save_vectorstore_def
    Let_def load_documents_def select_loader_def path_join_def startswith_def endswith_def
    sample_platform_def no_embedding_platform_def)

end
